theory Spec2Isabelle
  imports Complex_Main "HOL-Library.Word"
begin

section \<open>Values of a request body\<close>

text \<open>
  The handlers of \<^verbatim>\<open>backend/index.js\<close> read the fields of \<^verbatim>\<open>req.body\<close>, the object
  that \<^verbatim>\<open>express.json()\<close> parsed. A field holds a JavaScript value; the primitive ones
  are modelled, a number being an integer (what a numeric passcode is; it prints as plain
  decimal digits below \<open>10\<^sup>2\<^sup>1\<close>). Arrays and objects, which a JSON body can hold as
  well, are outside the model. A field that the request does not carry reads as
  \<^verbatim>\<open>undefined\<close>. Strings are lists of 8-bit characters.
\<close>

datatype jsval = JUndefined | JNull | JBool bool | JNum int | JStr string

type_synonym req_body = "string \<rightharpoonup> jsval"

definition field :: "req_body \<Rightarrow> string \<Rightarrow> jsval" where
  "field b k = (case b k of None \<Rightarrow> JUndefined | Some v \<Rightarrow> v)"

text \<open>\<^verbatim>\<open>!v\<close> is true exactly for the falsy values.\<close>

fun truthy :: "jsval \<Rightarrow> bool" where
  "truthy JUndefined = False"
| "truthy JNull = False"
| "truthy (JBool b) = b"
| "truthy (JNum n) = (n \<noteq> 0)"
| "truthy (JStr s) = (s \<noteq> [])"

text \<open>Decimal digits of an integer, as \<^verbatim>\<open>Number.prototype.toString\<close> prints them.\<close>

definition digit_char :: "nat \<Rightarrow> char" where
  "digit_char d = ''0123456789'' ! d"

fun dec_nat :: "nat \<Rightarrow> string" where
  "dec_nat n = (if n < 10 then [digit_char n] else dec_nat (n div 10) @ [digit_char (n mod 10)])"

declare dec_nat.simps [simp del]

definition dec_int :: "int \<Rightarrow> string" where
  "dec_int i = (if i < 0 then CHR ''-'' # dec_nat (nat (- i)) else dec_nat (nat i))"

text \<open>
  The string conversion of a template literal \<^verbatim>\<open>`${v}`\<close> and of \<^verbatim>\<open>regex.test(v)\<close>,
  and the method call \<^verbatim>\<open>v.toString()\<close>, which throws a TypeError on \<^verbatim>\<open>undefined\<close>
  and \<^verbatim>\<open>null\<close>.
\<close>

fun ToString :: "jsval \<Rightarrow> string" where
  "ToString JUndefined = ''undefined''"
| "ToString JNull = ''null''"
| "ToString (JBool b) = (if b then ''true'' else ''false'')"
| "ToString (JNum n) = dec_int n"
| "ToString (JStr s) = s"

fun toString_method :: "jsval \<Rightarrow> string option" where
  "toString_method JUndefined = None"
| "toString_method JNull = None"
| "toString_method v = Some (ToString v)"

section \<open>The OTP store\<close>

text \<open>
  \<^verbatim>\<open>otpStorage\<close> is a \<^verbatim>\<open>Map\<close> from the email value to \<^verbatim>\<open>{ otp, timestamp, verified }\<close>.
  A \<^verbatim>\<open>Map\<close> compares primitive keys by value, so it is a partial function on \<open>jsval\<close>.
  Timestamps are \<^verbatim>\<open>Date.now()\<close> milliseconds.
\<close>

record otp_data =
  otp :: string
  timestamp :: int
  verified :: bool

type_synonym otp_storage = "jsval \<rightharpoonup> otp_data"

section \<open>Utility functions\<close>

text \<open>
  \<^verbatim>\<open>generateOTP\<close>: \<^verbatim>\<open>Math.floor(100000 + Math.random() * 900000).toString()\<close>. The draw of
  \<^verbatim>\<open>Math.random()\<close>, a number in \<open>[0, 1)\<close>, is the argument.
\<close>

definition generateOTP :: "real \<Rightarrow> string" where
  "generateOTP rnd = dec_int \<lfloor>100000 + rnd * 900000\<rfloor>"

text \<open>\<^verbatim>\<open>isOTPExpired\<close>: \<^verbatim>\<open>Date.now() - timestamp > 5 * 60 * 1000\<close>; the clock is the first argument.\<close>

definition isOTPExpired :: "int \<Rightarrow> int \<Rightarrow> bool" where
  "isOTPExpired now ts = (now - ts > 5 * 60 * 1000)"

text \<open>
  \<^verbatim>\<open>isValidEmail\<close> tests \<^verbatim>\<open>/^[^\s@]+@[^\s@]+\.[^\s@]+$/\<close>. Among 8-bit characters
  \<^verbatim>\<open>\s\<close> is tab, line feed, vertical tab, form feed, carriage return, space and
  no-break space. A string matches when it has no white space and exactly one \<^verbatim>\<open>@\<close>,
  something before it, and after it a dot that is neither the first nor the last character.
\<close>

definition is_space :: "char \<Rightarrow> bool" where
  "is_space c = (of_char c \<in> set [9, 10, 11, 12, 13, 32, 160 :: nat])"

definition email_regex_test :: "string \<Rightarrow> bool" where
  "email_regex_test s =
     (let name = takeWhile (\<lambda>c. c \<noteq> CHR ''@'') s;
          rest = dropWhile (\<lambda>c. c \<noteq> CHR ''@'') s
      in name \<noteq> [] \<and> rest \<noteq> [] \<and> list_all (\<lambda>c. \<not> is_space c) s \<and>
         CHR ''@'' \<notin> set (tl rest) \<and> CHR ''.'' \<in> set (butlast (tl (tl rest))))"

definition isValidEmail :: "jsval \<Rightarrow> bool" where
  "isValidEmail email = email_regex_test (ToString email)"

section \<open>Collaborators and replies\<close>

text \<open>
  A reply is the HTTP status and the JSON object given to \<^verbatim>\<open>res.json\<close> (status 200 when
  \<^verbatim>\<open>res.status\<close> is not called). The order object of the payment gateway is opaque to the
  program, which forwards it; it is kept as its text.
\<close>

datatype order = GatewayOrder string

datatype payload = Fields "(string \<times> jsval) list" | Order order

record response =
  status :: nat
  body :: payload

text \<open>
  A message handed to \<^verbatim>\<open>transporter.sendMail\<close>. The subject and the HTML text are fixed
  literals of the source apart from the passcode: \<open>VerificationCode otp\<close> stands for
  those of \<^verbatim>\<open>/api/send-otp\<close>, \<open>ImageCollection\<close> for those of \<^verbatim>\<open>/api/verify-payment\<close>.
\<close>

record attachment =
  filename :: string
  path :: string

datatype template = VerificationCode string | ImageCollection

record mailOptions =
  mail_from :: string
  mail_to :: jsval
  content :: template
  attachments :: "attachment list"

text \<open>The options given to \<^verbatim>\<open>razorpay.orders.create\<close>.\<close>

record order_options =
  amount :: nat
  currency :: string
  receipt :: string
  notes_user_email :: jsval

text \<open>
  What the process is configured with and what it calls: the environment variables, the
  directory of the script, Node's HMAC-SHA256 (key, message, giving the digest bytes), the
  mail transport (\<open>False\<close> when \<^verbatim>\<open>sendMail\<close> rejects) and the gateway's order creation
  (\<open>None\<close> when it rejects).
\<close>

record env =
  EMAIL_USER :: string
  RAZORPAY_KEY_SECRET :: string
  dirname :: string
  hmac_sha256 :: "string \<Rightarrow> string \<Rightarrow> 8 word list"
  sendMail :: "mailOptions \<Rightarrow> bool"
  orders_create :: "order_options \<Rightarrow> order option"

text \<open>
  What a handler leaves behind: its reply, the store, the messages it handed to the mail
  transport and the order requests it handed to the gateway.
\<close>

record outcome =
  reply :: response
  storage :: otp_storage
  mails :: "mailOptions list"
  gateway_calls :: "order_options list"

text \<open>\<^verbatim>\<open>digest('hex')\<close> and \<^verbatim>\<open>toString('hex')\<close>: two lower-case hex digits per byte.\<close>

definition hex_digit :: "nat \<Rightarrow> char" where
  "hex_digit d = ''0123456789abcdef'' ! d"

definition hex :: "8 word list \<Rightarrow> string" where
  "hex bs = concat (map (\<lambda>b. [hex_digit (unat b div 16), hex_digit (unat b mod 16)]) bs)"

section \<open>POST /api/send-otp\<close>

text \<open>
  Each handler is one function from the clock, the random draws, the store and the request
  body to its outcome. A handler runs without interruption up to its single \<^verbatim>\<open>await\<close>,
  and the functions below describe one request handled on its own. In \<^verbatim>\<open>/api/send-otp\<close>
  the store is written before \<^verbatim>\<open>sendMail\<close> is awaited, and the \<^verbatim>\<open>catch\<close> only replies.
\<close>

definition send_otp :: "env \<Rightarrow> int \<Rightarrow> real \<Rightarrow> otp_storage \<Rightarrow> req_body \<Rightarrow> outcome" where
  "send_otp e now rnd otpStorage b =
     (let email = field b ''email'' in
      if \<not> truthy email \<or> \<not> isValidEmail email then
        \<lparr>reply = \<lparr>status = 400, body = Fields [(''error'', JStr ''Valid email is required'')]\<rparr>,
         storage = otpStorage, mails = [], gateway_calls = []\<rparr>
      else
        let code = generateOTP rnd;
            otpStorage' = otpStorage(email \<mapsto> \<lparr>otp = code, timestamp = now, verified = False\<rparr>);
            mail = \<lparr>mail_from = ''\"BAZINGA! Verification\" <'' @ EMAIL_USER e @ ''>'',
                    mail_to = email, content = VerificationCode code, attachments = []\<rparr>
        in if sendMail e mail then
             \<lparr>reply = \<lparr>status = 200, body = Fields [(''success'', JBool True),
                                                    (''message'', JStr ''OTP sent successfully'')]\<rparr>,
              storage = otpStorage', mails = [mail], gateway_calls = []\<rparr>
           else
             \<lparr>reply = \<lparr>status = 500, body = Fields [(''error'', JStr ''Failed to send OTP'')]\<rparr>,
              storage = otpStorage', mails = [mail], gateway_calls = []\<rparr>)"

section \<open>POST /api/verify-otp\<close>

text \<open>
  A handler that throws is answered by the framework's default error handler with status
  500; \<open>uncaught\<close> is that reply.
\<close>

definition uncaught :: response where
  "uncaught = \<lparr>status = 500, body = Fields []\<rparr>"

definition verify_otp :: "int \<Rightarrow> otp_storage \<Rightarrow> req_body \<Rightarrow> outcome" where
  "verify_otp now otpStorage b =
     (let email = field b ''email''; code = field b ''otp'' in
      if \<not> truthy email \<or> \<not> truthy code then
        \<lparr>reply = \<lparr>status = 400, body = Fields [(''error'', JStr ''Email and OTP are required'')]\<rparr>,
         storage = otpStorage, mails = [], gateway_calls = []\<rparr>
      else case otpStorage email of
        None \<Rightarrow>
          \<lparr>reply = \<lparr>status = 400, body = Fields [(''error'', JStr ''Please request an OTP first.'')]\<rparr>,
           storage = otpStorage, mails = [], gateway_calls = []\<rparr>
      | Some otpData \<Rightarrow>
          if isOTPExpired now (timestamp otpData) then
            \<lparr>reply = \<lparr>status = 400,
                       body = Fields [(''error'', JStr ''OTP expired. Please request a new one.'')]\<rparr>,
             storage = otpStorage(email := None), mails = [], gateway_calls = []\<rparr>
          else case toString_method code of
            None \<Rightarrow> \<lparr>reply = uncaught, storage = otpStorage, mails = [], gateway_calls = []\<rparr>
          | Some submitted \<Rightarrow>
              if otp otpData \<noteq> submitted then
                \<lparr>reply = \<lparr>status = 400, body = Fields [(''error'', JStr ''Invalid OTP.'')]\<rparr>,
                 storage = otpStorage, mails = [], gateway_calls = []\<rparr>
              else
                \<lparr>reply = \<lparr>status = 200, body = Fields [(''success'', JBool True),
                                                       (''message'', JStr ''Email verified successfully'')]\<rparr>,
                 storage = otpStorage(email \<mapsto> otpData\<lparr>verified := True\<rparr>),
                 mails = [], gateway_calls = []\<rparr>)"

section \<open>POST /api/create-order\<close>

text \<open>The argument \<open>rand4\<close> is the result of \<^verbatim>\<open>crypto.randomBytes(4)\<close>.\<close>

definition create_order :: "env \<Rightarrow> 8 word list \<Rightarrow> otp_storage \<Rightarrow> req_body \<Rightarrow> outcome" where
  "create_order e rand4 otpStorage b =
     (let email = field b ''email'' in
      if (case otpStorage email of None \<Rightarrow> True | Some otpData \<Rightarrow> \<not> verified otpData) then
        \<lparr>reply = \<lparr>status = 403, body = Fields [(''error'', JStr ''Email not verified.'')]\<rparr>,
         storage = otpStorage, mails = [], gateway_calls = []\<rparr>
      else
        let options = \<lparr>amount = 150, currency = ''INR'',
                       receipt = ''receipt_order_'' @ hex rand4, notes_user_email = email\<rparr>
        in case orders_create e options of
             Some ord \<Rightarrow>
               \<lparr>reply = \<lparr>status = 200, body = Order ord\<rparr>,
                storage = otpStorage, mails = [], gateway_calls = [options]\<rparr>
           | None \<Rightarrow>
               \<lparr>reply = \<lparr>status = 500, body = Fields [(''error'', JStr ''Failed to create order'')]\<rparr>,
                storage = otpStorage, mails = [], gateway_calls = [options]\<rparr>)"

section \<open>POST /api/verify-payment\<close>

text \<open>\<^verbatim>\<open>s.padStart(n, c)\<close> for a one-character pad, and \<^verbatim>\<open>path.join\<close> of plain segments.\<close>

definition padStart :: "nat \<Rightarrow> char \<Rightarrow> string \<Rightarrow> string" where
  "padStart n c s = replicate (n - length s) c @ s"

fun path_join :: "string list \<Rightarrow> string" where
  "path_join [] = ''.''"
| "path_join [s] = s"
| "path_join (s # ss) = s @ ''/'' @ path_join ss"

text \<open>The loop \<^verbatim>\<open>for (let i = 1; i <= 11; i++)\<close> that fills \<^verbatim>\<open>attachments\<close>.\<close>

function attachments_loop :: "string \<Rightarrow> nat \<Rightarrow> attachment list \<Rightarrow> attachment list" where
  "attachments_loop dir i acc =
     (if i \<le> 11 then
        let number = padStart 2 CHR ''0'' (dec_nat i) in
        attachments_loop dir (i + 1)
          (acc @ [\<lparr>filename = ''bazinga_'' @ number @ ''.jpg'',
                   path = path_join [dir, ''files'', ''bazinga_'' @ number @ ''.jpg'']\<rparr>])
      else acc)"
  by pat_completeness auto
termination
  by (relation "measure (\<lambda>(dir, i, acc). 12 - i)") auto

declare attachments_loop.simps [simp del]

definition verify_payment :: "env \<Rightarrow> otp_storage \<Rightarrow> req_body \<Rightarrow> outcome" where
  "verify_payment e otpStorage b =
     (let razorpay_order_id = field b ''razorpay_order_id'';
          razorpay_payment_id = field b ''razorpay_payment_id'';
          razorpay_signature = field b ''razorpay_signature'';
          email = field b ''email'';
          body_text = ToString razorpay_order_id @ ''|'' @ ToString razorpay_payment_id;
          expectedSignature = hex (hmac_sha256 e (RAZORPAY_KEY_SECRET e) body_text)
      in if JStr expectedSignature \<noteq> razorpay_signature then
           \<lparr>reply = \<lparr>status = 400, body = Fields [(''status'', JStr ''error''),
                                                  (''message'', JStr ''Invalid payment signature.'')]\<rparr>,
            storage = otpStorage, mails = [], gateway_calls = []\<rparr>
         else
           let mail = \<lparr>mail_from = ''\"BAZINGA!\" <'' @ EMAIL_USER e @ ''>'', mail_to = email,
                       content = ImageCollection,
                       attachments = attachments_loop (dirname e) 1 []\<rparr>
           in if sendMail e mail then
                \<lparr>reply = \<lparr>status = 200, body = Fields [(''status'', JStr ''success''),
                                 (''message'', JStr ''Payment successful and images sent!'')]\<rparr>,
                 storage = otpStorage(email := None), mails = [mail], gateway_calls = []\<rparr>
              else
                \<lparr>reply = \<lparr>status = 500, body = Fields [(''status'', JStr ''error''),
                                 (''message'', JStr ''Payment verified, but email failed.'')]\<rparr>,
                 storage = otpStorage, mails = [mail], gateway_calls = []\<rparr>)"

section \<open>The replies by name\<close>

text \<open>
  The specification names the failures; the program tells them apart by status and
  message. Each name below is the reply that one \<^verbatim>\<open>res.status(...).json(...)\<close> of the
  source sends: \<open>invalid_email\<close> and \<open>missing_fields\<close> are InvalidInput,
  \<open>otp_delivery_failure\<close> and \<open>payment_delivery_failure\<close> are DeliveryFailure.
\<close>

definition invalid_email :: response where
  "invalid_email = \<lparr>status = 400, body = Fields [(''error'', JStr ''Valid email is required'')]\<rparr>"

definition otp_sent :: response where
  "otp_sent = \<lparr>status = 200, body = Fields [(''success'', JBool True),
                                              (''message'', JStr ''OTP sent successfully'')]\<rparr>"

definition otp_delivery_failure :: response where
  "otp_delivery_failure = \<lparr>status = 500, body = Fields [(''error'', JStr ''Failed to send OTP'')]\<rparr>"

definition missing_fields :: response where
  "missing_fields = \<lparr>status = 400, body = Fields [(''error'', JStr ''Email and OTP are required'')]\<rparr>"

definition no_session_found :: response where
  "no_session_found =
     \<lparr>status = 400, body = Fields [(''error'', JStr ''Please request an OTP first.'')]\<rparr>"

definition otp_expired :: response where
  "otp_expired =
     \<lparr>status = 400, body = Fields [(''error'', JStr ''OTP expired. Please request a new one.'')]\<rparr>"

definition otp_mismatch :: response where
  "otp_mismatch = \<lparr>status = 400, body = Fields [(''error'', JStr ''Invalid OTP.'')]\<rparr>"

definition otp_verified :: response where
  "otp_verified = \<lparr>status = 200, body = Fields [(''success'', JBool True),
                                                  (''message'', JStr ''Email verified successfully'')]\<rparr>"

definition not_verified :: response where
  "not_verified = \<lparr>status = 403, body = Fields [(''error'', JStr ''Email not verified.'')]\<rparr>"

definition upstream_failure :: response where
  "upstream_failure = \<lparr>status = 500, body = Fields [(''error'', JStr ''Failed to create order'')]\<rparr>"

definition signature_mismatch :: response where
  "signature_mismatch =
     \<lparr>status = 400, body = Fields [(''status'', JStr ''error''),
                                    (''message'', JStr ''Invalid payment signature.'')]\<rparr>"

definition payment_delivery_failure :: response where
  "payment_delivery_failure =
     \<lparr>status = 500, body = Fields [(''status'', JStr ''error''),
                                    (''message'', JStr ''Payment verified, but email failed.'')]\<rparr>"

definition payment_success :: response where
  "payment_success =
     \<lparr>status = 200, body = Fields [(''status'', JStr ''success''),
                                    (''message'', JStr ''Payment successful and images sent!'')]\<rparr>"

section \<open>A concrete deployment\<close>

text \<open>
  The inputs on which the theorems below are run: a shop whose mail transport delivers
  (\<open>shop\<close>) or rejects (\<open>shop_mail_down\<close>), whose gateway answers or rejects
  (\<open>shop_gateway_down\<close>), a purchaser, and a store holding the purchaser's session.
\<close>

definition purchaser :: jsval where
  "purchaser = JStr ''a@b.com''"

definition session0 :: otp_data where
  "session0 = \<lparr>otp = ''123456'', timestamp = 0, verified = False\<rparr>"

definition store0 :: otp_storage where
  "store0 = Map.empty(purchaser \<mapsto> session0)"

definition session_verified :: otp_data where
  "session_verified = \<lparr>otp = ''100000'', timestamp = 0, verified = True\<rparr>"

definition store_verified :: otp_storage where
  "store_verified = Map.empty(purchaser \<mapsto> session_verified)"

text \<open>
  \<open>sample_digest\<close> stands in for the keyed digest where a theorem is run on the concrete
  shop; the theorems themselves hold for every function in that place.
\<close>

definition sample_digest :: "string \<Rightarrow> string \<Rightarrow> 8 word list" where
  "sample_digest k m = map (\<lambda>c. of_nat (of_char c)) (k @ m)"

definition shop :: env where
  "shop = \<lparr>EMAIL_USER = ''shop@gmail.com'', RAZORPAY_KEY_SECRET = ''s3cr3t'', dirname = ''/app'',
            hmac_sha256 = sample_digest, sendMail = (\<lambda>m. True),
            orders_create = (\<lambda>opts. Some (GatewayOrder ''order_1''))\<rparr>"

definition shop_mail_down :: env where
  "shop_mail_down = shop\<lparr>sendMail := (\<lambda>m. False)\<rparr>"

definition shop_gateway_down :: env where
  "shop_gateway_down = shop\<lparr>orders_create := (\<lambda>opts. None)\<rparr>"

definition email_req :: req_body where
  "email_req = [''email'' \<mapsto> purchaser]"

definition req_code :: "jsval \<Rightarrow> req_body" where
  "req_code c = [''email'' \<mapsto> purchaser, ''otp'' \<mapsto> c]"

definition pay_req :: "jsval \<Rightarrow> req_body" where
  "pay_req sig =
     [''razorpay_order_id'' \<mapsto> JStr ''order_1'', ''razorpay_payment_id'' \<mapsto> JStr ''pay_1'',
      ''razorpay_signature'' \<mapsto> sig, ''email'' \<mapsto> purchaser]"

definition good_signature :: string where
  "good_signature = hex (hmac_sha256 shop ''s3cr3t'' ''order_1|pay_1'')"

definition bare_signature :: string where
  "bare_signature = hex (hmac_sha256 shop ''s3cr3t'' ''undefined|undefined'')"

text \<open>The emails under which a store holds sessions are truthy and of valid shape.\<close>

definition keys_truthy :: "otp_storage \<Rightarrow> bool" where
  "keys_truthy st = (\<forall>k. st k \<noteq> None \<longrightarrow> truthy k \<and> isValidEmail k)"

section \<open>Auxiliary facts\<close>

lemmas replies = invalid_email_def otp_sent_def otp_delivery_failure_def missing_fields_def
  no_session_found_def otp_expired_def otp_mismatch_def otp_verified_def not_verified_def
  upstream_failure_def signature_mismatch_def payment_delivery_failure_def payment_success_def
  uncaught_def

lemma toString_method_truthy: "truthy v \<Longrightarrow> toString_method v = Some (ToString v)"
  by (cases v) simp_all

lemma field_upd [simp]: "field (b(k \<mapsto> v)) k' = (if k' = k then v else field b k')"
  by (simp add: field_def)

lemma field_empty [simp]: "field Map.empty k = JUndefined"
  by (simp add: field_def)

lemma field_email_req [simp]: "field email_req ''email'' = purchaser"
  by (simp add: email_req_def)

lemma field_req_code [simp]:
  "field (req_code c) ''email'' = purchaser" "field (req_code c) ''otp'' = c"
  by (simp_all add: req_code_def)

lemma field_pay_req [simp]:
  "field (pay_req sig) ''razorpay_order_id'' = JStr ''order_1''"
  "field (pay_req sig) ''razorpay_payment_id'' = JStr ''pay_1''"
  "field (pay_req sig) ''razorpay_signature'' = sig"
  "field (pay_req sig) ''email'' = purchaser"
  by (simp_all add: pay_req_def)

lemma shop_simps [simp]:
  "RAZORPAY_KEY_SECRET shop = ''s3cr3t''" "hmac_sha256 shop = sample_digest" "sendMail shop m"
  "RAZORPAY_KEY_SECRET shop_mail_down = ''s3cr3t''" "hmac_sha256 shop_mail_down = sample_digest"
  "\<not> sendMail shop_mail_down m"
  "orders_create shop opts = Some (GatewayOrder ''order_1'')"
  "orders_create shop_gateway_down opts = None"
  by (simp_all add: shop_def shop_mail_down_def shop_gateway_down_def)

lemma valid_purchaser: "truthy purchaser \<and> isValidEmail purchaser"
  by (simp add: purchaser_def isValidEmail_def email_regex_test_def is_space_def)

lemma generateOTP_0: "generateOTP 0 = ''100000''"
  by (simp add: generateOTP_def dec_int_def dec_nat.simps digit_char_def)

lemma generateOTP_half: "generateOTP (1/2) = ''550000''"
  by (simp add: generateOTP_def dec_int_def dec_nat.simps digit_char_def)

text \<open>The loop of \<^verbatim>\<open>/api/verify-payment\<close> builds these eleven file names, in this order.\<close>

lemma attachments_eleven:
  "map filename (attachments_loop d 1 []) =
     [''bazinga_01.jpg'', ''bazinga_02.jpg'', ''bazinga_03.jpg'', ''bazinga_04.jpg'',
      ''bazinga_05.jpg'', ''bazinga_06.jpg'', ''bazinga_07.jpg'', ''bazinga_08.jpg'',
      ''bazinga_09.jpg'', ''bazinga_10.jpg'', ''bazinga_11.jpg'']"
  by (simp add: attachments_loop.simps padStart_def dec_nat.simps digit_char_def)

text \<open>
  \<^verbatim>\<open>otp.toString()\<close> is reached only after \<^verbatim>\<open>!otp\<close> was false, so it never throws:
  \<^verbatim>\<open>/api/verify-otp\<close> never answers through the default error handler.
\<close>

lemma verify_otp_never_throws: "reply (verify_otp now st b) \<noteq> uncaught"
  by (auto simp: verify_otp_def Let_def uncaught_def toString_method_truthy
      split: option.splits)

text \<open>
  The test \<open>email_regex_test\<close> accepts the language of the regular expression: the
  strings \<open>a@b.c\<close> with \<open>a\<close>, \<open>b\<close> and \<open>c\<close> non-empty and free of white space and of
  \<^verbatim>\<open>@\<close>.
\<close>

lemma not_space_at: "\<not> is_space CHR ''@''" and not_space_dot: "\<not> is_space CHR ''.''"
  by (simp_all add: is_space_def)

lemma email_regex_test_complete:
  assumes s: "s = a @ ''@'' @ b @ ''.'' @ c"
    and ne: "a \<noteq> []" "b \<noteq> []" "c \<noteq> []"
    and cls: "\<forall>x\<in>set (a @ b @ c). \<not> is_space x \<and> x \<noteq> CHR ''@''"
  shows "email_regex_test s"
proof -
  have a: "CHR ''@'' \<notin> set a" using cls by auto
  have tw: "takeWhile (\<lambda>x. x \<noteq> CHR ''@'') s = a"
    unfolding s using a by (subst takeWhile_append2) auto
  have dw: "dropWhile (\<lambda>x. x \<noteq> CHR ''@'') s = ''@'' @ b @ ''.'' @ c"
    unfolding s using a by (subst dropWhile_append2) auto
  obtain b0 b' where b: "b = b0 # b'" using ne(2) by (cases b) auto
  have bl: "butlast (b' @ CHR ''.'' # c) = b' @ CHR ''.'' # butlast c"
    using ne(3) by (simp add: butlast_append)
  have sp: "list_all (\<lambda>x. \<not> is_space x) s"
    unfolding s using cls by (auto simp: list_all_iff not_space_at not_space_dot)
  show ?thesis
    unfolding email_regex_test_def Let_def tw dw
    using ne cls sp bl by (auto simp: b)
qed

lemma email_regex_test_sound:
  assumes "email_regex_test s"
  shows "\<exists>a b c. s = a @ ''@'' @ b @ ''.'' @ c \<and> a \<noteq> [] \<and> b \<noteq> [] \<and> c \<noteq> [] \<and>
           (\<forall>x\<in>set (a @ b @ c). \<not> is_space x \<and> x \<noteq> CHR ''@'')"
proof -
  define a where "a = takeWhile (\<lambda>x. x \<noteq> CHR ''@'') s"
  define rest where "rest = dropWhile (\<lambda>x. x \<noteq> CHR ''@'') s"
  have s: "s = a @ rest" by (simp add: a_def rest_def)
  from assms have a_ne: "a \<noteq> []" and r_ne: "rest \<noteq> []"
    and sp: "list_all (\<lambda>x. \<not> is_space x) s"
    and no_at: "CHR ''@'' \<notin> set (tl rest)"
    and dot: "CHR ''.'' \<in> set (butlast (tl (tl rest)))"
    by (simp_all add: email_regex_test_def Let_def a_def rest_def)
  have "hd rest = CHR ''@''"
    using r_ne hd_dropWhile [of "\<lambda>x. x \<noteq> CHR ''@''" s] by (simp add: rest_def)
  with r_ne obtain d where rest: "rest = CHR ''@'' # d" by (cases rest) auto
  from dot rest obtain x d' where d: "d = x # d'" by (cases d) auto
  from dot rest d obtain e y where d': "d' = e @ [y]"
    by (cases d' rule: rev_cases) auto
  from dot rest d d' have "CHR ''.'' \<in> set e" by simp
  then obtain e1 e2 where e: "e = e1 @ CHR ''.'' # e2" by (auto simp: in_set_conv_decomp)
  have a_at: "CHR ''@'' \<notin> set a"
    using set_takeWhileD [of "CHR ''@''" "\<lambda>x. x \<noteq> CHR ''@''" s] by (auto simp: a_def)
  have "s = a @ ''@'' @ (x # e1) @ ''.'' @ (e2 @ [y])"
    by (simp add: s rest d d' e)
  moreover have "\<forall>z\<in>set (a @ (x # e1) @ (e2 @ [y])). \<not> is_space z \<and> z \<noteq> CHR ''@''"
    using sp no_at a_at by (auto simp: s rest d d' e list_all_iff)
  ultimately show ?thesis using a_ne by blast
qed

text \<open>
  Only \<^verbatim>\<open>/api/send-otp\<close> adds a key to the store, and only a truthy one that passed
  \<open>isValidEmail\<close>; so a store that the handlers built from the empty one satisfies
  \<open>keys_truthy\<close>: every email with a stored session is truthy.
\<close>

lemma send_otp_keys: "keys_truthy st \<Longrightarrow> keys_truthy (storage (send_otp e now rnd st b))"
  by (auto simp: keys_truthy_def send_otp_def Let_def)

lemma verify_otp_keys: "keys_truthy st \<Longrightarrow> keys_truthy (storage (verify_otp now st b))"
  by (auto simp: keys_truthy_def verify_otp_def Let_def split: option.splits)

lemma create_order_keys: "keys_truthy st \<Longrightarrow> keys_truthy (storage (create_order e r st b))"
  by (auto simp: keys_truthy_def create_order_def Let_def split: option.splits)

lemma verify_payment_keys: "keys_truthy st \<Longrightarrow> keys_truthy (storage (verify_payment e st b))"
  by (auto simp: keys_truthy_def verify_payment_def Let_def)

lemma keys_truthy_empty: "keys_truthy Map.empty"
  by (simp add: keys_truthy_def)

lemma keys_truthyD: "keys_truthy st \<Longrightarrow> st k = Some d \<Longrightarrow> truthy k \<and> isValidEmail k"
  by (auto simp: keys_truthy_def)

lemma keys_truthy_store0: "keys_truthy store0"
  using valid_purchaser by (simp add: keys_truthy_def store0_def)

lemma keys_truthy_store_verified: "keys_truthy store_verified"
  using valid_purchaser by (simp add: keys_truthy_def store_verified_def)

text \<open>A draw in \<open>[0, 1)\<close> gives a code of six digits that does not begin with 0.\<close>

lemma generateOTP_range:
  assumes "0 \<le> rnd" and "rnd < 1"
  shows "\<exists>n. generateOTP rnd = dec_nat n \<and> 100000 \<le> n \<and> n \<le> 999999"
proof -
  let ?k = "\<lfloor>rnd * 900000\<rfloor>"
  have lo: "0 \<le> ?k" using assms(1) by simp
  have "rnd * 900000 < 900000" using assms(2) by simp
  then have hi: "?k < 900000" by (simp add: floor_less_iff)
  from lo have "\<not> 100000 + ?k < 0" by linarith
  then have "generateOTP rnd = dec_nat (nat (100000 + ?k))"
    by (simp add: generateOTP_def dec_int_def)
  moreover from lo hi have "100000 \<le> nat (100000 + ?k) \<and> nat (100000 + ?k) \<le> 999999"
    by linarith
  ultimately show ?thesis by blast
qed

section \<open>Payment verification\<close>

text \<open>
  Claim C1. For every order identifier, payment identifier and claimed signature, the
  payment verifier computes HMAC-SHA256 with the secret key over the order identifier, a
  pipe and the payment identifier, hex-encodes the digest, and goes on to send the
  deliverables exactly when the claimed signature is that hex string; any other claimed
  signature is answered with SignatureMismatch, nothing is sent and the store is left
  alone. The witness is the case of order \<open>order_1\<close>, payment \<open>pay_1\<close> and secret
  \<open>s3cr3t\<close>.
\<close>

theorem verify_payment_signature:
  assumes "field b ''razorpay_order_id'' = JStr orderId"
    and "field b ''razorpay_payment_id'' = JStr paymentId"
  shows "(mails (verify_payment e st b) \<noteq> []) =
           (field b ''razorpay_signature'' =
              JStr (hex (hmac_sha256 e (RAZORPAY_KEY_SECRET e) (orderId @ ''|'' @ paymentId)))) \<and>
         (field b ''razorpay_signature'' \<noteq>
              JStr (hex (hmac_sha256 e (RAZORPAY_KEY_SECRET e) (orderId @ ''|'' @ paymentId))) \<longrightarrow>
            verify_payment e st b =
              \<lparr>reply = signature_mismatch, storage = st, mails = [], gateway_calls = []\<rparr>)"
  using assms by (auto simp: verify_payment_def Let_def signature_mismatch_def)

theorem verify_payment_signature_witness:
  "good_signature = hex (hmac_sha256 shop ''s3cr3t'' ''order_1|pay_1'') \<and>
   mails (verify_payment shop store0 (pay_req (JStr good_signature))) \<noteq> [] \<and>
   verify_payment shop store0 (pay_req (JStr ''00'')) =
     \<lparr>reply = signature_mismatch, storage = store0, mails = [], gateway_calls = []\<rparr>"
  using verify_payment_signature [of "pay_req (JStr good_signature)" "''order_1''" "''pay_1''" shop store0]
    verify_payment_signature [of "pay_req (JStr ''00'')" "''order_1''" "''pay_1''" shop store0]
  by (simp add: good_signature_def hex_def hex_digit_def sample_digest_def)

text \<open>
  Claim C2. For every payment-verification request whose signature matches, one message
  goes to the given email with exactly 11 attachments, named \<open>bazinga_01.jpg\<close> to
  \<open>bazinga_11.jpg\<close>; if the send succeeds, the session stored for that email is deleted
  and the success acknowledgment is returned; if it fails, the caller receives the
  DeliveryFailure reply whose message says that the payment was verified, and the store is
  left as it was.
\<close>

theorem verify_payment_delivery:
  assumes "field b ''razorpay_signature'' =
             JStr (hex (hmac_sha256 e (RAZORPAY_KEY_SECRET e)
                    (ToString (field b ''razorpay_order_id'') @ ''|'' @
                     ToString (field b ''razorpay_payment_id''))))"
  shows "\<exists>m. mails (verify_payment e st b) = [m] \<and> mail_to m = field b ''email'' \<and>
           length (attachments m) = 11 \<and>
           map filename (attachments m) =
             [''bazinga_01.jpg'', ''bazinga_02.jpg'', ''bazinga_03.jpg'', ''bazinga_04.jpg'',
              ''bazinga_05.jpg'', ''bazinga_06.jpg'', ''bazinga_07.jpg'', ''bazinga_08.jpg'',
              ''bazinga_09.jpg'', ''bazinga_10.jpg'', ''bazinga_11.jpg''] \<and>
           (sendMail e m \<longrightarrow>
              storage (verify_payment e st b) = st(field b ''email'' := None) \<and>
              reply (verify_payment e st b) = payment_success) \<and>
           (\<not> sendMail e m \<longrightarrow>
              reply (verify_payment e st b) = payment_delivery_failure \<and>
              storage (verify_payment e st b) = st)"
proof -
  have len: "length (attachments_loop (dirname e) 1 []) = 11"
    using arg_cong [OF attachments_eleven [of "dirname e"], of length] by simp
  show ?thesis
    using assms len
    by (simp add: verify_payment_def Let_def attachments_eleven payment_success_def
        payment_delivery_failure_def del: One_nat_def)
qed

theorem verify_payment_delivery_witness:
  "storage (verify_payment shop store0 (pay_req (JStr good_signature))) purchaser = None \<and>
   reply (verify_payment shop store0 (pay_req (JStr good_signature))) = payment_success \<and>
   map (length \<circ> attachments) (mails (verify_payment shop store0 (pay_req (JStr good_signature))))
     = [11] \<and>
   reply (verify_payment shop_mail_down store0 (pay_req (JStr good_signature))) =
     payment_delivery_failure \<and>
   storage (verify_payment shop_mail_down store0 (pay_req (JStr good_signature))) = store0"
  using verify_payment_delivery [of "pay_req (JStr good_signature)" shop store0]
    verify_payment_delivery [of "pay_req (JStr good_signature)" shop_mail_down store0]
  by (auto simp: good_signature_def)

text \<open>
  Claim C9. Payment verification validates nothing: whatever the request holds, the reply
  is SignatureMismatch, DeliveryFailure or the success acknowledgment. A missing order or
  payment identifier enters the signed text as \<open>undefined\<close>, and the deliverables are sent
  exactly when the claimed signature is the digest of that text; a missing signature is a
  SignatureMismatch.
\<close>

theorem verify_payment_no_validation:
  "reply (verify_payment e st b) \<in> {signature_mismatch, payment_delivery_failure, payment_success} \<and>
   (b ''razorpay_order_id'' = None \<longrightarrow>
      (mails (verify_payment e st b) \<noteq> []) =
        (field b ''razorpay_signature'' =
           JStr (hex (hmac_sha256 e (RAZORPAY_KEY_SECRET e)
                  (''undefined|'' @ ToString (field b ''razorpay_payment_id''))))) \<and>
      (mails (verify_payment e st b) = [] \<longrightarrow> reply (verify_payment e st b) = signature_mismatch)) \<and>
   (b ''razorpay_payment_id'' = None \<longrightarrow>
      (mails (verify_payment e st b) \<noteq> []) =
        (field b ''razorpay_signature'' =
           JStr (hex (hmac_sha256 e (RAZORPAY_KEY_SECRET e)
                  (ToString (field b ''razorpay_order_id'') @ ''|undefined'')))) \<and>
      (mails (verify_payment e st b) = [] \<longrightarrow> reply (verify_payment e st b) = signature_mismatch)) \<and>
   (b ''razorpay_signature'' = None \<longrightarrow>
      verify_payment e st b =
        \<lparr>reply = signature_mismatch, storage = st, mails = [], gateway_calls = []\<rparr>)"
  by (simp add: verify_payment_def Let_def replies field_def)

theorem verify_payment_no_validation_witness:
  "verify_payment shop store0 Map.empty =
     \<lparr>reply = signature_mismatch, storage = store0, mails = [], gateway_calls = []\<rparr> \<and>
   mails (verify_payment shop store0 [''razorpay_signature'' \<mapsto> JStr bare_signature]) \<noteq> [] \<and>
   mails (verify_payment shop store0
      [''razorpay_order_id'' \<mapsto> JStr ''order_1'', ''razorpay_signature'' \<mapsto> JStr bare_signature]) = []"
  using verify_payment_no_validation [of shop store0 Map.empty]
    verify_payment_no_validation [of shop store0 "[''razorpay_signature'' \<mapsto> JStr bare_signature]"]
    verify_payment_no_validation [of shop store0
      "[''razorpay_order_id'' \<mapsto> JStr ''order_1'', ''razorpay_signature'' \<mapsto> JStr bare_signature]"]
  by (simp add: bare_signature_def hex_def hex_digit_def sample_digest_def)

section \<open>OTP verification\<close>

text \<open>
  Claim C3, amended. For every email with a stored session, a verification attempt that
  carries a code (a truthy one) and is made more than 5 minutes after issuance
  (\<open>now - issuedAt > 5 minutes\<close>) fails with Expired and deletes the session, and every
  later attempt for that email that carries a code, the stored one included, fails with
  NoSessionFound. The store is one that the handlers built (\<open>keys_truthy\<close>); a falsy
  code is the subject of claim C10.
\<close>

theorem verify_otp_expired:
  assumes "keys_truthy st" and "st (field b ''email'') = Some d"
    and "truthy (field b ''otp'')"
    and "now - timestamp d > 5 * 60 * 1000"
    and "field b' ''email'' = field b ''email''" and "truthy (field b' ''otp'')"
  shows "reply (verify_otp now st b) = otp_expired \<and>
         storage (verify_otp now st b) = st(field b ''email'' := None) \<and>
         reply (verify_otp now' (storage (verify_otp now st b)) b') = no_session_found"
  using assms(2-) keys_truthyD [OF assms(1,2)]
  by (simp add: verify_otp_def Let_def isOTPExpired_def replies)

theorem verify_otp_expired_witness:
  "reply (verify_otp 300001 store0 (req_code (JStr ''123456''))) = otp_expired \<and>
   storage (verify_otp 300001 store0 (req_code (JStr ''123456''))) =
     store0(field (req_code (JStr ''123456'')) ''email'' := None) \<and>
   reply (verify_otp 300002 (storage (verify_otp 300001 store0 (req_code (JStr ''123456''))))
            (req_code (JNum 123456))) = no_session_found"
  by (rule verify_otp_expired [where d = session0])
     (simp_all add: keys_truthy_store0, simp_all add: store0_def session0_def)

text \<open>
  The claim as written takes \<open>now - issuedAt \<ge> 5 minutes\<close> for expiry. Exactly 5 minutes
  after issuance the session is not expired: the stored code is accepted and the session
  stays.
\<close>

theorem expiry_boundary_counterexample:
  "(300000::int) - timestamp session0 \<ge> 5 * 60 * 1000 \<and>
   store0 purchaser = Some session0 \<and>
   reply (verify_otp 300000 store0 (req_code (JStr ''123456''))) = otp_verified \<and>
   reply (verify_otp 300000 store0 (req_code (JStr ''123456''))) \<noteq> otp_expired \<and>
   storage (verify_otp 300000 store0 (req_code (JStr ''123456''))) purchaser \<noteq> None"
  by (simp add: verify_otp_def Let_def isOTPExpired_def replies store0_def session0_def
      purchaser_def req_code_def)

text \<open>
  Claim C4, amended. For every email with a non-expired stored session, a verification
  attempt that carries a code (a truthy one) whose string form differs from the stored code
  fails with Mismatch and leaves the store as it was, so that a following attempt that
  carries the stored code, made before expiry, succeeds. The store is one that the handlers
  built (\<open>keys_truthy\<close>).
\<close>

theorem verify_otp_mismatch:
  assumes "keys_truthy st" and "st (field b ''email'') = Some d"
    and "truthy (field b ''otp'')"
    and "\<not> isOTPExpired now (timestamp d)"
    and "ToString (field b ''otp'') \<noteq> otp d"
    and "field b' ''email'' = field b ''email''" and "truthy (field b' ''otp'')"
    and "ToString (field b' ''otp'') = otp d"
    and "\<not> isOTPExpired now' (timestamp d)"
  shows "verify_otp now st b =
           \<lparr>reply = otp_mismatch, storage = st, mails = [], gateway_calls = []\<rparr> \<and>
         reply (verify_otp now' (storage (verify_otp now st b)) b') = otp_verified"
  using assms(2-) keys_truthyD [OF assms(1,2)]
  by (simp add: verify_otp_def Let_def replies toString_method_truthy)

theorem verify_otp_mismatch_witness:
  "verify_otp 1000 store0 (req_code (JNum 654321)) =
     \<lparr>reply = otp_mismatch, storage = store0, mails = [], gateway_calls = []\<rparr> \<and>
   reply (verify_otp 2000 (storage (verify_otp 1000 store0 (req_code (JNum 654321))))
            (req_code (JStr ''123456''))) = otp_verified"
  by (rule verify_otp_mismatch [where d = session0])
     (simp_all add: keys_truthy_store0,
      simp_all add: store0_def session0_def isOTPExpired_def dec_int_def dec_nat.simps
        digit_char_def)

text \<open>
  The claim as written covers every submitted code whose string form differs from the
  stored one. The empty string is such a code, and it is answered with InvalidInput, not
  with Mismatch.
\<close>

theorem empty_code_counterexample:
  "store0 purchaser = Some session0 \<and> \<not> isOTPExpired 1000 (timestamp session0) \<and>
   ToString (JStr []) \<noteq> otp session0 \<and>
   reply (verify_otp 1000 store0 (req_code (JStr []))) = missing_fields \<and>
   reply (verify_otp 1000 store0 (req_code (JStr []))) \<noteq> otp_mismatch"
  by (simp add: verify_otp_def Let_def isOTPExpired_def replies store0_def session0_def
      purchaser_def req_code_def)

text \<open>
  Claim C8. A successful OTP verification changes the store only at the request's email,
  and there only the \<open>verified\<close> flag, which it sets; the stored code and the timestamp
  are those of the session before.
\<close>

theorem verify_otp_success_frame:
  assumes "reply (verify_otp now st b) = otp_verified"
  shows "\<exists>d. st (field b ''email'') = Some d \<and>
           storage (verify_otp now st b) =
             st(field b ''email'' \<mapsto> \<lparr>otp = otp d, timestamp = timestamp d, verified = True\<rparr>)"
  using assms by (auto simp: verify_otp_def replies Let_def split: if_splits option.splits)

theorem verify_otp_success_frame_witness:
  "reply (verify_otp 1000 store0 (req_code (JNum 123456))) = otp_verified \<and>
   storage (verify_otp 1000 store0 (req_code (JNum 123456))) =
     Map.empty(purchaser \<mapsto> \<lparr>otp = ''123456'', timestamp = 0, verified = True\<rparr>)"
proof -
  have ok: "reply (verify_otp 1000 store0 (req_code (JNum 123456))) = otp_verified"
    by (simp add: verify_otp_def Let_def store0_def session0_def purchaser_def isOTPExpired_def
        dec_int_def dec_nat.simps digit_char_def otp_verified_def)
  from verify_otp_success_frame [OF ok] ok show ?thesis
    by (auto simp: store0_def session0_def)
qed

text \<open>
  Claim C10. The presence of the submitted code is tested by truthiness: a request whose
  code is the number 0 or the empty string is answered with InvalidInput (missing fields),
  whatever the store holds, and the store is not touched.
\<close>

theorem verify_otp_falsy_code:
  assumes "field b ''otp'' = JNum 0 \<or> field b ''otp'' = JStr []"
  shows "verify_otp now st b =
           \<lparr>reply = missing_fields, storage = st, mails = [], gateway_calls = []\<rparr>"
  using assms by (auto simp: verify_otp_def Let_def missing_fields_def)

theorem verify_otp_falsy_code_witness:
  "verify_otp 1000 store0 (req_code (JNum 0)) =
     \<lparr>reply = missing_fields, storage = store0, mails = [], gateway_calls = []\<rparr> \<and>
   verify_otp 1000 store0 (req_code (JStr [])) =
     \<lparr>reply = missing_fields, storage = store0, mails = [], gateway_calls = []\<rparr>"
  using verify_otp_falsy_code [of "req_code (JNum 0)" 1000 store0]
    verify_otp_falsy_code [of "req_code (JStr [])" 1000 store0]
  by simp

section \<open>OTP issuance\<close>

text \<open>
  Claim C5, amended. The store holds at most one session per email, being a map, and
  re-issuing an OTP for an email that already has a session, verified or not, overwrites
  that session entirely: verified is reset to false, issuedAt is set to the current time,
  the code is the freshly drawn one, and the old code no longer verifies unless the fresh
  draw is the same code. The store is one that the handlers built (\<open>keys_truthy\<close>).
\<close>

theorem send_otp_overwrites:
  assumes "keys_truthy st" and "st (field b ''email'') = Some old"
    and "field b' ''email'' = field b ''email''"
    and "ToString (field b' ''otp'') = otp old"
    and "otp old \<noteq> generateOTP rnd"
  shows "storage (send_otp e now rnd st b) =
           st(field b ''email'' \<mapsto> \<lparr>otp = generateOTP rnd, timestamp = now, verified = False\<rparr>) \<and>
         reply (verify_otp now' (storage (send_otp e now rnd st b)) b') \<noteq> otp_verified"
proof -
  have st': "storage (send_otp e now rnd st b) =
      st(field b ''email'' \<mapsto> \<lparr>otp = generateOTP rnd, timestamp = now, verified = False\<rparr>)"
    using keys_truthyD [OF assms(1,2)] by (simp add: send_otp_def Let_def)
  have "reply (verify_otp now' (st(field b ''email'' \<mapsto>
           \<lparr>otp = generateOTP rnd, timestamp = now, verified = False\<rparr>)) b') \<noteq> otp_verified"
  proof (cases "truthy (field b' ''otp'')")
    case True
    then show ?thesis
      using assms(3,4,5) by (auto simp: verify_otp_def Let_def replies toString_method_truthy)
  next
    case False
    then show ?thesis by (simp add: verify_otp_def Let_def replies)
  qed
  with st' show ?thesis by simp
qed

theorem send_otp_overwrites_witness:
  "storage (send_otp shop 1000 (1/2) store_verified email_req) =
     store_verified(field email_req ''email'' \<mapsto>
        \<lparr>otp = generateOTP (1/2), timestamp = 1000, verified = False\<rparr>) \<and>
   reply (verify_otp 2000 (storage (send_otp shop 1000 (1/2) store_verified email_req))
            (req_code (JStr ''100000''))) \<noteq> otp_verified"
  by (rule send_otp_overwrites [where old = session_verified])
     (simp_all add: keys_truthy_store_verified,
      simp_all add: store_verified_def session_verified_def generateOTP_half)

text \<open>
  The claim as written says that the old code no longer verifies. When the fresh draw gives
  the code that was stored before, here \<open>100000\<close>, the old code verifies the new session.
\<close>

theorem same_draw_counterexample:
  "store_verified purchaser = Some session_verified \<and>
   reply (verify_otp 2000 (storage (send_otp shop 1000 0 store_verified email_req))
            (req_code (JStr (otp session_verified)))) = otp_verified"
  by (simp add: send_otp_def verify_otp_def Let_def valid_purchaser generateOTP_0 isOTPExpired_def
      store_verified_def session_verified_def otp_verified_def)

text \<open>
  Claim C7. When OTP issuance fails with DeliveryFailure, which it does when the mail
  transport rejected the message, the store write is not rolled back: the store holds the
  freshly written session (the new code, issuedAt = now, verified = false) for that email.
\<close>

theorem send_otp_no_rollback:
  assumes "reply (send_otp e now rnd st b) = otp_delivery_failure"
  shows "(\<exists>m. mails (send_otp e now rnd st b) = [m] \<and> \<not> sendMail e m) \<and>
         storage (send_otp e now rnd st b) =
           st(field b ''email'' \<mapsto> \<lparr>otp = generateOTP rnd, timestamp = now, verified = False\<rparr>)"
  using assms by (auto simp: send_otp_def Let_def replies split: if_splits)

theorem send_otp_no_rollback_witness:
  "reply (send_otp shop_mail_down 1000 (1/2) Map.empty email_req) = otp_delivery_failure \<and>
   storage (send_otp shop_mail_down 1000 (1/2) Map.empty email_req) purchaser =
     Some \<lparr>otp = ''550000'', timestamp = 1000, verified = False\<rparr>"
proof -
  have f: "reply (send_otp shop_mail_down 1000 (1/2) Map.empty email_req) = otp_delivery_failure"
    by (simp add: send_otp_def Let_def valid_purchaser otp_delivery_failure_def)
  from send_otp_no_rollback [OF f] f show ?thesis
    by (simp add: generateOTP_half)
qed

section \<open>Order creation\<close>

text \<open>
  Claim C6. Order creation fails with NotVerified for every email that has no stored
  session or whose session has verified = false, and hands a request to the gateway only
  when verified = true; if the gateway call fails it replies UpstreamFailure and leaves the
  store as it was, so the verified session survives and a retry reaches the gateway again
  without a new verification.
\<close>

theorem create_order_gate:
  "(st (field b ''email'') = None \<or> (\<exists>d. st (field b ''email'') = Some d \<and> \<not> verified d) \<longrightarrow>
      create_order e r st b =
        \<lparr>reply = not_verified, storage = st, mails = [], gateway_calls = []\<rparr>) \<and>
   (gateway_calls (create_order e r st b) \<noteq> [] \<longrightarrow>
      (\<exists>d. st (field b ''email'') = Some d \<and> verified d)) \<and>
   ((\<exists>d. st (field b ''email'') = Some d \<and> verified d) \<longrightarrow>
      (\<exists>opts. gateway_calls (create_order e r st b) = [opts] \<and>
         storage (create_order e r st b) = st \<and>
         (orders_create e opts = None \<longrightarrow>
            reply (create_order e r st b) = upstream_failure \<and>
            gateway_calls (create_order e' r' (storage (create_order e r st b)) b) \<noteq> []) \<and>
         (\<forall>ord. orders_create e opts = Some ord \<longrightarrow>
            reply (create_order e r st b) = \<lparr>status = 200, body = Order ord\<rparr>)))"
  by (auto simp: create_order_def Let_def replies split: option.splits)

theorem create_order_gate_witness:
  "create_order shop [1, 2, 3, 4] Map.empty email_req =
     \<lparr>reply = not_verified, storage = Map.empty, mails = [], gateway_calls = []\<rparr> \<and>
   create_order shop [1, 2, 3, 4] store0 email_req =
     \<lparr>reply = not_verified, storage = store0, mails = [], gateway_calls = []\<rparr> \<and>
   reply (create_order shop_gateway_down [1, 2, 3, 4] store_verified email_req) = upstream_failure \<and>
   storage (create_order shop_gateway_down [1, 2, 3, 4] store_verified email_req) = store_verified \<and>
   reply (create_order shop [5, 6, 7, 8]
           (storage (create_order shop_gateway_down [1, 2, 3, 4] store_verified email_req)) email_req) =
     \<lparr>status = 200, body = Order (GatewayOrder ''order_1'')\<rparr>"
  using create_order_gate [of Map.empty email_req shop "[1, 2, 3, 4]"]
    create_order_gate [of store0 email_req shop "[1, 2, 3, 4]"]
    create_order_gate [of store_verified email_req shop_gateway_down "[1, 2, 3, 4]"]
    create_order_gate [of store_verified email_req shop "[5, 6, 7, 8]"]
  by (auto simp: store0_def session0_def store_verified_def session_verified_def)

end
